theory Spec2Isabelle
  imports Main
begin

section \<open>The UDF callback type aliases of \<^verbatim>\<open>src/tmp.c\<close>\<close>

text \<open>
  The source is fifteen lines of C: eight \<^verbatim>\<open>typedef\<close>s of function-pointer types, the
  calling convention a user-defined function offers to the database server. Nothing in it
  executes; what can be verified is the shape of each declaration. A declaration
  \<^verbatim>\<open>typedef R (*Name)(P1, ..., Pn);\<close> is modelled by its return type \<open>R\<close> and the list
  \<open>[P1, ..., Pn]\<close> of its parameter types, in the order written. The declarations name no
  parameter, so a parameter is known by its position and its type only.
\<close>

subsection \<open>C types occurring in the declarations\<close>

text \<open>
  \<open>UDF_INIT\<close> and \<open>UDF_ARGS\<close> are structure types the fragment uses without declaring
  them; they are opaque here. \<open>CPtr t\<close> is \<^verbatim>\<open>t *\<close>.
\<close>

datatype ctype =
    CVoid
  | CBool
  | CDouble
  | CLongLong
  | CChar
  | CUnsignedChar
  | CUnsignedLong
  | UDF_INIT
  | UDF_ARGS
  | CPtr ctype

record fn_ptr =
  ret_type :: ctype
  param_types :: "ctype list"

subsection \<open>The eight typedefs, in source order\<close>

text \<open>\<^verbatim>\<open>typedef void (*Udf_func_clear)(UDF_INIT *, unsigned char *, unsigned char *);\<close>\<close>

definition Udf_func_clear :: fn_ptr where
  "Udf_func_clear =
     \<lparr>ret_type = CVoid,
      param_types = [CPtr UDF_INIT, CPtr CUnsignedChar, CPtr CUnsignedChar]\<rparr>"

text \<open>\<^verbatim>\<open>typedef void (*Udf_func_add)(UDF_INIT *, UDF_ARGS *, unsigned char *, unsigned char *);\<close>\<close>

definition Udf_func_add :: fn_ptr where
  "Udf_func_add =
     \<lparr>ret_type = CVoid,
      param_types = [CPtr UDF_INIT, CPtr UDF_ARGS, CPtr CUnsignedChar, CPtr CUnsignedChar]\<rparr>"

text \<open>\<^verbatim>\<open>typedef void (*Udf_func_deinit)(UDF_INIT *);\<close>\<close>

definition Udf_func_deinit :: fn_ptr where
  "Udf_func_deinit = \<lparr>ret_type = CVoid, param_types = [CPtr UDF_INIT]\<rparr>"

text \<open>\<^verbatim>\<open>typedef bool (*Udf_func_init)(UDF_INIT *, UDF_ARGS *, char *);\<close>\<close>

definition Udf_func_init :: fn_ptr where
  "Udf_func_init =
     \<lparr>ret_type = CBool, param_types = [CPtr UDF_INIT, CPtr UDF_ARGS, CPtr CChar]\<rparr>"

text \<open>
  \<^verbatim>\<open>typedef void (*Udf_func_any)(void);\<close>
  In C the parameter list \<^verbatim>\<open>(void)\<close> declares a function of no parameters.
\<close>

definition Udf_func_any :: fn_ptr where
  "Udf_func_any = \<lparr>ret_type = CVoid, param_types = []\<rparr>"

text \<open>\<^verbatim>\<open>typedef double (*Udf_func_double)(UDF_INIT *, UDF_ARGS *, unsigned char *, unsigned char *);\<close>\<close>

definition Udf_func_double :: fn_ptr where
  "Udf_func_double =
     \<lparr>ret_type = CDouble,
      param_types = [CPtr UDF_INIT, CPtr UDF_ARGS, CPtr CUnsignedChar, CPtr CUnsignedChar]\<rparr>"

text \<open>\<^verbatim>\<open>typedef long long (*Udf_func_longlong)(UDF_INIT *, UDF_ARGS *, unsigned char *, unsigned char *);\<close>\<close>

definition Udf_func_longlong :: fn_ptr where
  "Udf_func_longlong =
     \<lparr>ret_type = CLongLong,
      param_types = [CPtr UDF_INIT, CPtr UDF_ARGS, CPtr CUnsignedChar, CPtr CUnsignedChar]\<rparr>"

text \<open>
  \<^verbatim>\<open>typedef char *(*Udf_func_string)(UDF_INIT *, UDF_ARGS *, char *, unsigned long *,
                                   unsigned char *, unsigned char *);\<close>
\<close>

definition Udf_func_string :: fn_ptr where
  "Udf_func_string =
     \<lparr>ret_type = CPtr CChar,
      param_types = [CPtr UDF_INIT, CPtr UDF_ARGS, CPtr CChar, CPtr CUnsignedLong,
                     CPtr CUnsignedChar, CPtr CUnsignedChar]\<rparr>"

text \<open>
  The names the file declares, and the declaration behind each. A statement about
  ``every alias'' ranges over \<open>udf_alias\<close>.
\<close>

datatype udf_alias =
    A_clear
  | A_add
  | A_deinit
  | A_init
  | A_any
  | A_double
  | A_longlong
  | A_string

fun typedef_of :: "udf_alias \<Rightarrow> fn_ptr" where
  "typedef_of A_clear = Udf_func_clear"
| "typedef_of A_add = Udf_func_add"
| "typedef_of A_deinit = Udf_func_deinit"
| "typedef_of A_init = Udf_func_init"
| "typedef_of A_any = Udf_func_any"
| "typedef_of A_double = Udf_func_double"
| "typedef_of A_longlong = Udf_func_longlong"
| "typedef_of A_string = Udf_func_string"

text \<open>The aliases in the order the file declares them.\<close>

definition declared :: "udf_alias list" where
  "declared = [A_clear, A_add, A_deinit, A_init, A_any, A_double, A_longlong, A_string]"

subsection \<open>Reading a declaration\<close>

text \<open>The first parameter of a declaration, if it has one.\<close>

fun first_param :: "fn_ptr \<Rightarrow> ctype option" where
  "first_param s = (case param_types s of [] \<Rightarrow> None | t # _ \<Rightarrow> Some t)"

text \<open>The last two parameters of a declaration, if it has two.\<close>

fun last_two :: "ctype list \<Rightarrow> (ctype \<times> ctype) option" where
  "last_two [] = None"
| "last_two [t] = None"
| "last_two [t, u] = Some (t, u)"
| "last_two (t # u # v # ts) = last_two (u # v # ts)"

text \<open>How many parameters of a declaration have the type \<open>t\<close>.\<close>

definition count_params :: "ctype \<Rightarrow> fn_ptr \<Rightarrow> nat" where
  "count_params t s = length (filter (\<lambda>u. u = t) (param_types s))"

text \<open>
  A \<^verbatim>\<open>char *\<close> parameter that is not immediately followed by an \<^verbatim>\<open>unsigned long *\<close>:
  a character buffer handed over with no place to report a length.
\<close>

fun unsized_char_buffer :: "ctype list \<Rightarrow> bool" where
  "unsized_char_buffer [] = False"
| "unsized_char_buffer [t] = (t = CPtr CChar)"
| "unsized_char_buffer (t # u # ts) =
     ((t = CPtr CChar \<and> u \<noteq> CPtr CUnsignedLong) \<or> unsized_char_buffer (u # ts))"

subsection \<open>The specification's table of shapes\<close>

text \<open>
  The specification describes each callback by the categories of its parameters and by
  what it returns. The following definitions are taken from the specification's words,
  not from the source, and carry the prefix \<open>spec_\<close>; the theorems compare them with
  the declarations above.
\<close>

datatype spec_category =
    Context
  | Args
  | ResultBuffer
  | NullFlag
  | LengthOut
  | ErrorBuffer

datatype spec_return = ReturnsVoid | ReturnsBoolean | ReturnsValue

text \<open>
  The table of the overview, row by row. The last row stands for three aliases and
  brackets the length-out parameter, which only the string callback has.
\<close>

fun spec_table_params :: "udf_alias \<Rightarrow> spec_category list" where
  "spec_table_params A_clear = [Context, ResultBuffer, NullFlag]"
| "spec_table_params A_add = [Context, Args, ResultBuffer, NullFlag]"
| "spec_table_params A_deinit = [Context]"
| "spec_table_params A_init = [Context, Args, ErrorBuffer]"
| "spec_table_params A_any = []"
| "spec_table_params A_double = [Context, Args, ResultBuffer, NullFlag]"
| "spec_table_params A_longlong = [Context, Args, ResultBuffer, NullFlag]"
| "spec_table_params A_string = [Context, Args, LengthOut, ResultBuffer, NullFlag]"

fun spec_table_return :: "udf_alias \<Rightarrow> spec_return" where
  "spec_table_return A_clear = ReturnsVoid"
| "spec_table_return A_add = ReturnsVoid"
| "spec_table_return A_deinit = ReturnsVoid"
| "spec_table_return A_init = ReturnsBoolean"
| "spec_table_return A_any = ReturnsVoid"
| "spec_table_return A_double = ReturnsValue"
| "spec_table_return A_longlong = ReturnsValue"
| "spec_table_return A_string = ReturnsValue"

text \<open>
  Which C type carries a category. The declarations name no parameter, so a category is
  recognised by its type alone, and every category has one type. The types are those of
  the string callback, the one declaration in which a context, an argument list, a result
  buffer, a length-out and a flag all occur: the context is the \<^verbatim>\<open>UDF_INIT *\<close>, the
  argument list the \<^verbatim>\<open>UDF_ARGS *\<close> and the length-out the \<^verbatim>\<open>unsigned long *\<close>; the
  result is a character string, returned as \<^verbatim>\<open>char *\<close>, so its buffer is the
  \<^verbatim>\<open>char *\<close> parameter, which the length-out follows; the pointer type that is left,
  \<^verbatim>\<open>unsigned char *\<close>, is the flag's. The error-message buffer of \<open>init\<close> is its
  \<^verbatim>\<open>char *\<close>. No type carries both a result buffer and a flag.
\<close>

fun spec_carrier :: "spec_category \<Rightarrow> ctype \<Rightarrow> bool" where
  "spec_carrier Context t = (t = CPtr UDF_INIT)"
| "spec_carrier Args t = (t = CPtr UDF_ARGS)"
| "spec_carrier LengthOut t = (t = CPtr CUnsignedLong)"
| "spec_carrier ErrorBuffer t = (t = CPtr CChar)"
| "spec_carrier NullFlag t = (t = CPtr CUnsignedChar)"
| "spec_carrier ResultBuffer t = (t = CPtr CChar)"

fun spec_return_ok :: "spec_return \<Rightarrow> ctype \<Rightarrow> bool" where
  "spec_return_ok ReturnsVoid t = (t = CVoid)"
| "spec_return_ok ReturnsBoolean t = (t = CBool)"
| "spec_return_ok ReturnsValue t = (t = CDouble \<or> t = CLongLong \<or> t = CPtr CChar)"

text \<open>
  A declaration matches a shape when it has as many parameters as the shape has
  categories, each parameter can stand for the category at its position, and the return
  type is of the kind the shape gives.
\<close>

definition spec_matches :: "spec_category list \<Rightarrow> spec_return \<Rightarrow> fn_ptr \<Rightarrow> bool" where
  "spec_matches cs r s =
     (list_all2 spec_carrier cs (param_types s) \<and> spec_return_ok r (ret_type s))"

definition spec_table_match :: "udf_alias \<Rightarrow> bool" where
  "spec_table_match k = spec_matches (spec_table_params k) (spec_table_return k) (typedef_of k)"

text \<open>
  The explicit error channel the specification names: a boolean success/failure return
  together with an error-message buffer. In a declaration without parameter names, the
  error-message buffer is the \<^verbatim>\<open>char *\<close> that comes with no length-out, as opposed to
  the string callback's \<^verbatim>\<open>char *\<close> result buffer, whose length is reported through the
  \<^verbatim>\<open>unsigned long *\<close> after it.
\<close>

definition spec_status_return :: "fn_ptr \<Rightarrow> bool" where
  "spec_status_return s = (ret_type s = CBool)"

definition spec_error_buffer :: "fn_ptr \<Rightarrow> bool" where
  "spec_error_buffer s = unsized_char_buffer (param_types s)"

section \<open>Properties of the declarations\<close>

lemmas typedef_defs =
  Udf_func_clear_def Udf_func_add_def Udf_func_deinit_def Udf_func_init_def
  Udf_func_any_def Udf_func_double_def Udf_func_longlong_def Udf_func_string_def

lemma declared_complete: "set declared = UNIV"
proof
  show "set declared \<subseteq> UNIV" by simp
  show "UNIV \<subseteq> set declared"
  proof
    fix k :: udf_alias
    show "k \<in> set declared" by (cases k) (simp_all add: declared_def)
  qed
qed

lemma declared_distinct: "distinct declared \<and> length declared = 8"
  by (simp add: declared_def)

lemma spec_matchesI:
  assumes "list_all2 spec_carrier cs (param_types s)" and "spec_return_ok r (ret_type s)"
  shows "spec_matches cs r s"
  using assms by (simp add: spec_matches_def)

lemma spec_matches_length:
  assumes "spec_matches cs r s"
  shows "length (param_types s) = length cs"
  using assms by (auto simp: spec_matches_def dest: list_all2_lengthD)

subsection \<open>The table of shapes\<close>

text \<open>
  C1, as stated: every alias matches its row of the table, and the string callback has
  exactly five parameters, in the order context, args, length-out, result-buffer,
  null-flag. The declaration of \<open>Udf_func_string\<close> has six parameters, so it cannot match
  a row of five categories, whatever type stands for each category.
\<close>

theorem string_table_row_counterexample:
  "length (spec_table_params A_string) = 5 \<and>
   length (param_types (typedef_of A_string)) = 6 \<and>
   \<not> spec_table_match A_string"
proof -
  have five: "length (spec_table_params A_string) = 5"
    by simp
  have six: "length (param_types (typedef_of A_string)) = 6"
    by (simp add: Udf_func_string_def)
  have "\<not> spec_table_match A_string"
  proof
    assume "spec_table_match A_string"
    then have "length (param_types (typedef_of A_string)) = length (spec_table_params A_string)"
      unfolding spec_table_match_def by (rule spec_matches_length)
    with five six show False by simp
  qed
  with five six show ?thesis by simp
qed

text \<open>
  C1, amended: every alias other than the string callback has as many parameters as its
  row of the table has categories, and every alias returns what its row says: \<^verbatim>\<open>void\<close>
  for \<open>clear\<close>, \<open>add\<close>, \<open>deinit\<close> and \<open>any\<close>, \<^verbatim>\<open>bool\<close> for \<open>init\<close>, and a value
  for the other three (\<^verbatim>\<open>double\<close>, \<^verbatim>\<open>long long\<close>, \<^verbatim>\<open>char *\<close>). The rows of
  \<open>deinit\<close>, \<open>init\<close> and \<open>any\<close> match in count, order and categories. \<open>clear\<close>,
  \<open>add\<close>, \<open>double\<close> and \<open>longlong\<close> have the context (and, but for \<open>clear\<close>, the
  argument list) where the table has them, followed by two parameters of the one type
  \<^verbatim>\<open>unsigned char *\<close> where the table has result-buffer and null-flag. The string
  callback declares six parameters, in the order context, args, result buffer
  (\<^verbatim>\<open>char *\<close>), length-out (\<^verbatim>\<open>unsigned long *\<close>) and two trailing
  \<^verbatim>\<open>unsigned char *\<close> flags, and returns \<^verbatim>\<open>char *\<close>.
\<close>

theorem table_rows_as_declared:
  "(length (param_types (typedef_of k)) = length (spec_table_params k)) = (k \<noteq> A_string) \<and>
   spec_return_ok (spec_table_return k) (ret_type (typedef_of k)) \<and>
   spec_table_match A_deinit \<and> spec_table_match A_init \<and> spec_table_match A_any \<and>
   param_types (typedef_of A_clear) =
     [CPtr UDF_INIT, CPtr CUnsignedChar, CPtr CUnsignedChar] \<and>
   param_types (typedef_of A_add) =
     [CPtr UDF_INIT, CPtr UDF_ARGS, CPtr CUnsignedChar, CPtr CUnsignedChar] \<and>
   param_types (typedef_of A_double) =
     [CPtr UDF_INIT, CPtr UDF_ARGS, CPtr CUnsignedChar, CPtr CUnsignedChar] \<and>
   param_types (typedef_of A_longlong) =
     [CPtr UDF_INIT, CPtr UDF_ARGS, CPtr CUnsignedChar, CPtr CUnsignedChar] \<and>
   param_types (typedef_of A_string) =
     [CPtr UDF_INIT, CPtr UDF_ARGS, CPtr CChar, CPtr CUnsignedLong,
      CPtr CUnsignedChar, CPtr CUnsignedChar] \<and>
   spec_matches [Context, Args, ResultBuffer, LengthOut, NullFlag, NullFlag] ReturnsValue
     (typedef_of A_string) \<and>
   ret_type (typedef_of A_double) = CDouble \<and>
   ret_type (typedef_of A_longlong) = CLongLong \<and>
   ret_type (typedef_of A_string) = CPtr CChar"
proof -
  have count: "(length (param_types (typedef_of k)) = length (spec_table_params k)) =
      (k \<noteq> A_string)"
    by (cases k) (simp_all add: typedef_defs)
  have ret: "spec_return_ok (spec_table_return k) (ret_type (typedef_of k))"
    by (cases k) (simp_all add: typedef_defs)
  have exact: "spec_table_match A_deinit \<and> spec_table_match A_init \<and> spec_table_match A_any"
    unfolding spec_table_match_def spec_matches_def
    by (simp add: Udf_func_deinit_def Udf_func_init_def Udf_func_any_def)
  have pair: "param_types (typedef_of A_clear) =
        [CPtr UDF_INIT, CPtr CUnsignedChar, CPtr CUnsignedChar] \<and>
      param_types (typedef_of A_add) =
        [CPtr UDF_INIT, CPtr UDF_ARGS, CPtr CUnsignedChar, CPtr CUnsignedChar] \<and>
      param_types (typedef_of A_double) =
        [CPtr UDF_INIT, CPtr UDF_ARGS, CPtr CUnsignedChar, CPtr CUnsignedChar] \<and>
      param_types (typedef_of A_longlong) =
        [CPtr UDF_INIT, CPtr UDF_ARGS, CPtr CUnsignedChar, CPtr CUnsignedChar]"
    by (simp add: Udf_func_clear_def Udf_func_add_def Udf_func_double_def
        Udf_func_longlong_def)
  have str: "param_types (typedef_of A_string) =
      [CPtr UDF_INIT, CPtr UDF_ARGS, CPtr CChar, CPtr CUnsignedLong,
       CPtr CUnsignedChar, CPtr CUnsignedChar]"
    by (simp add: Udf_func_string_def)
  have six: "spec_matches [Context, Args, ResultBuffer, LengthOut, NullFlag, NullFlag]
      ReturnsValue (typedef_of A_string)"
    by (rule spec_matchesI) (simp_all add: Udf_func_string_def)
  have rets: "ret_type (typedef_of A_double) = CDouble \<and>
      ret_type (typedef_of A_longlong) = CLongLong \<and>
      ret_type (typedef_of A_string) = CPtr CChar"
    by (simp add: Udf_func_double_def Udf_func_longlong_def Udf_func_string_def)
  from count ret exact pair str six rets show ?thesis
    by blast
qed

theorem table_rows_as_declared_witness:
  "length (param_types (typedef_of A_add)) = length (spec_table_params A_add) \<and>
   length (spec_table_params A_add) = 4 \<and>
   spec_return_ok (spec_table_return A_add) (ret_type (typedef_of A_add))"
proof -
  from table_rows_as_declared [of A_add]
  have "(length (param_types (typedef_of A_add)) = length (spec_table_params A_add)) =
      (A_add \<noteq> A_string)"
    and "spec_return_ok (spec_table_return A_add) (ret_type (typedef_of A_add))"
    by blast+
  then show ?thesis by simp
qed

subsection \<open>The first parameter\<close>

text \<open>
  C2, as stated: every alias, \<open>any\<close> included, declares the invocation context
  (\<^verbatim>\<open>UDF_INIT *\<close>) as its first parameter. \<open>Udf_func_any\<close> is declared with the
  parameter list \<^verbatim>\<open>(void)\<close>: it has no first parameter.
\<close>

theorem any_first_param_counterexample:
  "first_param (typedef_of A_any) = None \<and>
   first_param (typedef_of A_any) \<noteq> Some (CPtr UDF_INIT)"
  by (simp add: Udf_func_any_def)

text \<open>
  C2, amended: every alias other than \<open>any\<close> declares the invocation context
  (\<^verbatim>\<open>UDF_INIT *\<close>) as its first parameter; \<open>any\<close> declares no parameter.
\<close>

theorem context_first_except_any:
  "(k \<noteq> A_any \<longrightarrow> first_param (typedef_of k) = Some (CPtr UDF_INIT)) \<and>
   param_types (typedef_of A_any) = []"
proof
  show "k \<noteq> A_any \<longrightarrow> first_param (typedef_of k) = Some (CPtr UDF_INIT)"
  proof
    assume "k \<noteq> A_any"
    then show "first_param (typedef_of k) = Some (CPtr UDF_INIT)"
      by (cases k) (simp_all add: typedef_defs)
  qed
  show "param_types (typedef_of A_any) = []"
    by (simp add: Udf_func_any_def)
qed

theorem context_first_except_any_witness:
  "A_deinit \<noteq> A_any \<and> first_param (typedef_of A_deinit) = Some (CPtr UDF_INIT)"
  using context_first_except_any [of A_deinit] by simp

subsection \<open>The error channel\<close>

lemma char_buffer_aliases:
  "(CPtr CChar \<in> set (param_types (typedef_of k))) = (k = A_init \<or> k = A_string)"
  by (cases k) (simp_all add: typedef_defs)

text \<open>
  C3: \<open>init\<close> is the only alias that returns a boolean success/failure value, and the
  only one with an error-message buffer parameter; \<open>clear\<close>, \<open>add\<close> and \<open>deinit\<close>
  return \<^verbatim>\<open>void\<close>, so they have no return-based error channel. The only other alias
  with a \<^verbatim>\<open>char *\<close> parameter is the string callback, where it is the result buffer
  whose length goes out through the \<^verbatim>\<open>unsigned long *\<close> that follows it.
\<close>

theorem init_only_error_channel:
  "spec_status_return (typedef_of k) = (k = A_init) \<and>
   spec_error_buffer (typedef_of k) = (k = A_init) \<and>
   (CPtr CChar \<in> set (param_types (typedef_of k))) = (k = A_init \<or> k = A_string) \<and>
   ret_type (typedef_of A_clear) = CVoid \<and>
   ret_type (typedef_of A_add) = CVoid \<and>
   ret_type (typedef_of A_deinit) = CVoid"
proof -
  have status: "spec_status_return (typedef_of k) = (k = A_init)"
    unfolding spec_status_return_def by (cases k) (simp_all add: typedef_defs)
  have buffer: "spec_error_buffer (typedef_of k) = (k = A_init)"
    unfolding spec_error_buffer_def by (cases k) (simp_all add: typedef_defs)
  have voids: "ret_type (typedef_of A_clear) = CVoid \<and> ret_type (typedef_of A_add) = CVoid \<and>
      ret_type (typedef_of A_deinit) = CVoid"
    by (simp add: Udf_func_clear_def Udf_func_add_def Udf_func_deinit_def)
  from status buffer char_buffer_aliases [of k] voids show ?thesis
    by blast
qed

subsection \<open>The length-out parameter\<close>

text \<open>
  C4: the string callback is the only alias whose declaration has a length-out parameter
  (\<^verbatim>\<open>unsigned long *\<close>); it has exactly one.
\<close>

theorem length_out_only_string:
  "(CPtr CUnsignedLong \<in> set (param_types (typedef_of k))) = (k = A_string) \<and>
   count_params (CPtr CUnsignedLong) (typedef_of A_string) = 1"
proof
  show "(CPtr CUnsignedLong \<in> set (param_types (typedef_of k))) = (k = A_string)"
    by (cases k) (simp_all add: typedef_defs)
  show "count_params (CPtr CUnsignedLong) (typedef_of A_string) = 1"
    by (simp add: count_params_def Udf_func_string_def)
qed

subsection \<open>The untyped placeholder\<close>

text \<open>
  C5: \<open>any\<close> has no parameters and returns \<^verbatim>\<open>void\<close>, and it is the only alias of
  that shape: no other alias has an empty parameter list, and none has the same
  declaration.
\<close>

theorem any_shape_unique:
  "param_types (typedef_of A_any) = [] \<and>
   ret_type (typedef_of A_any) = CVoid \<and>
   (param_types (typedef_of k) = [] \<and> ret_type (typedef_of k) = CVoid) = (k = A_any) \<and>
   (param_types (typedef_of k) = []) = (k = A_any) \<and>
   (typedef_of k = typedef_of A_any) = (k = A_any)"
  by (cases k) (simp_all add: typedef_defs)

subsection \<open>The aggregate callbacks and the destructor\<close>





text \<open>
  C8: \<open>deinit\<close> takes exactly one parameter, the context (\<^verbatim>\<open>UDF_INIT *\<close>), and
  returns \<^verbatim>\<open>void\<close>.
\<close>

theorem deinit_shape:
  "length (param_types (typedef_of A_deinit)) = 1 \<and>
   typedef_of A_deinit = \<lparr>ret_type = CVoid, param_types = [CPtr UDF_INIT]\<rparr> \<and>
   spec_matches [Context] ReturnsVoid (typedef_of A_deinit)"
  by (simp add: spec_matches_def Udf_func_deinit_def)

subsection \<open>The string callback\<close>

text \<open>
  C9: the string callback declares exactly six parameters; its last two are both of the
  type \<^verbatim>\<open>unsigned char *\<close>, so there are two trailing flag parameters where the
  table's row has a single null flag; and it returns a pointer (\<^verbatim>\<open>char *\<close>).
\<close>

theorem string_six_params:
  "length (param_types (typedef_of A_string)) = 6 \<and>
   last_two (param_types (typedef_of A_string)) = Some (CPtr CUnsignedChar, CPtr CUnsignedChar) \<and>
   count_params (CPtr CUnsignedChar) (typedef_of A_string) = 2 \<and>
   length (filter (\<lambda>c. c = NullFlag) (spec_table_params A_string)) = 1 \<and>
   ret_type (typedef_of A_string) = CPtr CChar"
proof -
  have ps: "param_types (typedef_of A_string) =
      [CPtr UDF_INIT, CPtr UDF_ARGS, CPtr CChar, CPtr CUnsignedLong,
       CPtr CUnsignedChar, CPtr CUnsignedChar]"
    by (simp add: Udf_func_string_def)
  have "length (param_types (typedef_of A_string)) = 6"
    unfolding ps by simp
  moreover have "last_two (param_types (typedef_of A_string)) =
      Some (CPtr CUnsignedChar, CPtr CUnsignedChar)"
    unfolding ps by simp
  moreover have "count_params (CPtr CUnsignedChar) (typedef_of A_string) = 2"
    unfolding count_params_def ps by simp
  moreover have "length (filter (\<lambda>c. c = NullFlag) (spec_table_params A_string)) = 1"
    by simp
  moreover have "ret_type (typedef_of A_string) = CPtr CChar"
    by (simp add: Udf_func_string_def)
  ultimately show ?thesis by blast
qed

subsection \<open>The callbacks that share a parameter list\<close>

text \<open>
  C10: \<open>add\<close>, \<open>double\<close> and \<open>longlong\<close> declare the same parameter list
  (\<^verbatim>\<open>UDF_INIT *, UDF_ARGS *, unsigned char *, unsigned char *\<close>). \<open>double\<close> and
  \<open>longlong\<close> differ in their return types and in nothing else, and \<open>add\<close> differs from
  either by returning \<^verbatim>\<open>void\<close> and in nothing else.
\<close>

theorem add_double_longlong_params:
  "param_types (typedef_of A_add) =
     [CPtr UDF_INIT, CPtr UDF_ARGS, CPtr CUnsignedChar, CPtr CUnsignedChar] \<and>
   param_types (typedef_of A_double) = param_types (typedef_of A_add) \<and>
   param_types (typedef_of A_longlong) = param_types (typedef_of A_add) \<and>
   ret_type (typedef_of A_double) = CDouble \<and>
   ret_type (typedef_of A_longlong) = CLongLong \<and>
   ret_type (typedef_of A_add) = CVoid \<and>
   typedef_of A_double \<noteq> typedef_of A_longlong \<and>
   (typedef_of A_double)\<lparr>ret_type := CLongLong\<rparr> = typedef_of A_longlong \<and>
   typedef_of A_add \<noteq> typedef_of A_double \<and>
   typedef_of A_add \<noteq> typedef_of A_longlong \<and>
   (typedef_of A_double)\<lparr>ret_type := CVoid\<rparr> = typedef_of A_add \<and>
   (typedef_of A_longlong)\<lparr>ret_type := CVoid\<rparr> = typedef_of A_add"
  by (simp add: Udf_func_add_def Udf_func_double_def Udf_func_longlong_def)

end
